theory Spec2Isabelle
  imports Complex_Main
begin

section \<open>The simulation core of GameCanvas.tsx\<close>

text \<open>
  The model follows \<^verbatim>\<open>client/src/components/GameCanvas.tsx\<close>. The mutable object
  \<^verbatim>\<open>stateRef.current\<close> and the React state \<^verbatim>\<open>gameState\<close> are one record that every
  operation takes and returns. JavaScript numbers are read as exact reals. The properties
  below are stated so that they do not lean on that: none of them needs a sum of many
  machine numbers to come out exact. The two calls of \<^verbatim>\<open>Math.random()\<close> of a spawn are parameters of the frame.
  The particle list, the canvas drawing and the copies of score and coins that
  \<^verbatim>\<open>setScore\<close> and \<^verbatim>\<open>setCoins\<close> hand to the display are presentation only: no gameplay
  field reads them, and they are left out.

  Field names are those of the source; the fields of the three interfaces that share a
  name (\<^verbatim>\<open>lane\<close>, \<^verbatim>\<open>z\<close>) and the one-letter ones carry the prefix
  \<open>p_\<close> (Player), \<open>o_\<close> (Obstacle) or \<open>c_\<close> (Coin).
\<close>

subsection \<open>Constants\<close>

definition LANE_COUNT :: int where
  "LANE_COUNT = 3"

definition GRAVITY :: real where
  "GRAVITY = 0.6"

definition JUMP_FORCE :: real where
  "JUMP_FORCE = -15"

definition SPEED_INITIAL :: real where
  "SPEED_INITIAL = 12"

definition SPEED_INCREMENT :: real where
  "SPEED_INCREMENT = 0.005"

subsection \<open>Data\<close>

datatype GameState = Start | Playing | Gameover

datatype ObstacleType = Barrier | Train

record Player =
  p_lane :: int
  p_y :: real
  p_vy :: real
  isJumping :: bool
  stumbleCooldown :: int

record Obstacle =
  o_lane :: int
  o_z :: real
  o_type :: ObstacleType
  passed :: bool

record Coin =
  c_lane :: int
  c_z :: real
  active :: bool
  angle :: real

record state =
  gameState :: GameState
  speed :: real
  distance :: real
  score :: int
  coins :: int
  player :: Player
  policeDistance :: real
  obstacles :: "Obstacle list"
  items :: "Coin list"
  lastSpawnZ :: real
  gameOver :: bool

subsection \<open>Reset\<close>

text \<open>\<^verbatim>\<open>resetGame\<close> replaces the whole of \<^verbatim>\<open>stateRef.current\<close>; the React state is not touched.\<close>

definition resetGame :: "state \<Rightarrow> state" where
  "resetGame s =
     \<lparr> gameState = gameState s,
       speed = SPEED_INITIAL,
       distance = 0,
       score = 0,
       coins = 0,
       player = \<lparr> p_lane = 1, p_y = 0, p_vy = 0, isJumping = False, stumbleCooldown = 0 \<rparr>,
       policeDistance = 100,
       obstacles = [],
       items = [],
       lastSpawnZ = 0,
       gameOver = False \<rparr>"

text \<open>The component mounts with \<^verbatim>\<open>gameState = 'start'\<close> and the same initial object.\<close>

definition initial :: state where
  "initial =
     \<lparr> gameState = Start,
       speed = SPEED_INITIAL,
       distance = 0,
       score = 0,
       coins = 0,
       player = \<lparr> p_lane = 1, p_y = 0, p_vy = 0, isJumping = False, stumbleCooldown = 0 \<rparr>,
       policeDistance = 100,
       obstacles = [],
       items = [],
       lastSpawnZ = 0,
       gameOver = False \<rparr>"

subsection \<open>Controls\<close>

text \<open>\<^verbatim>\<open>handleKeyDown\<close>, on the value of \<^verbatim>\<open>e.key\<close>.\<close>

definition handleKeyDown :: "string \<Rightarrow> state \<Rightarrow> state" where
  "handleKeyDown k s =
     (if gameState s \<noteq> Playing then s
      else if k = ''ArrowLeft'' \<or> k = ''a'' then
        (if p_lane (player s) > 0
         then s\<lparr>player := (player s)\<lparr>p_lane := p_lane (player s) - 1\<rparr>\<rparr> else s)
      else if k = ''ArrowRight'' \<or> k = ''d'' then
        (if p_lane (player s) < LANE_COUNT - 1
         then s\<lparr>player := (player s)\<lparr>p_lane := p_lane (player s) + 1\<rparr>\<rparr> else s)
      else if k = ''ArrowUp'' \<or> k = ''w'' \<or> k = '' '' then
        (if \<not> isJumping (player s)
         then s\<lparr>player := (player s)\<lparr>p_vy := JUMP_FORCE, isJumping := True\<rparr>\<rparr> else s)
      else s)"

subsection \<open>The phases of one frame\<close>

text \<open>Speed, distance and score (lines 169 to 171).\<close>

definition advanceRun :: "state \<Rightarrow> state" where
  "advanceRun s =
     (let s1 = s\<lparr>speed := speed s + SPEED_INCREMENT\<rparr>;
          s2 = s1\<lparr>distance := distance s1 + speed s1\<rparr>
      in s2\<lparr>score := \<lfloor>distance s2 / 10\<rfloor>\<rparr>)"

text \<open>Player physics (lines 176 to 183): the position moves by the velocity, then the
  velocity takes the gravity.\<close>

definition physics :: "Player \<Rightarrow> Player" where
  "physics p =
     (if isJumping p then
        (let p1 = p\<lparr>p_y := p_y p + p_vy p\<rparr>;
             p2 = p1\<lparr>p_vy := p_vy p1 + GRAVITY\<rparr>
         in if p_y p2 \<ge> 0 then p2\<lparr>p_y := 0, isJumping := False\<rparr> else p2)
      else p)"

text \<open>Police catch-up (lines 186 to 190). \<^verbatim>\<open>setGameState('gameover')\<close> is the write of
  \<open>gameState\<close>: the running frame has read its own copy before and is not affected.\<close>

definition policeCatchup :: "state \<Rightarrow> state" where
  "policeCatchup s =
     (let s1 = (if policeDistance s < 100
                then s\<lparr>policeDistance := policeDistance s + 0.2\<rparr> else s)
      in if policeDistance s1 \<le> 0
         then s1\<lparr>gameOver := True, gameState := Gameover\<rparr> else s1)"

text \<open>The remainder \<^verbatim>\<open>%\<close> of JavaScript takes the sign of the dividend.\<close>

definition js_rem :: "int \<Rightarrow> int \<Rightarrow> int" where
  "js_rem a b = sgn a * (\<bar>a\<bar> mod \<bar>b\<bar>)"

text \<open>Spawning (lines 193 to 209); \<open>r1\<close> and \<open>r2\<close> are the two values of
  \<^verbatim>\<open>Math.random()\<close>.\<close>

definition spawning :: "real \<Rightarrow> real \<Rightarrow> state \<Rightarrow> state" where
  "spawning r1 r2 s =
     (if distance s - lastSpawnZ s > 800 then
        (let lane = \<lfloor>r1 * 3\<rfloor>;
             type = (if r2 > 0.7 then Train else Barrier);
             coinLane = js_rem (lane + 1) 3
         in s\<lparr> lastSpawnZ := distance s,
               obstacles := obstacles s @
                 [\<lparr> o_lane = lane, o_z = 2000, o_type = type, passed = False \<rparr>],
               items := items s @
                 [\<lparr> c_lane = coinLane, c_z = 2000, active = True, angle = 0 \<rparr>,
                  \<lparr> c_lane = coinLane, c_z = 2150, active = True, angle = 0 \<rparr>,
                  \<lparr> c_lane = coinLane, c_z = 2300, active = True, angle = 0 \<rparr>] \<rparr>)
      else s)"

text \<open>Moving the objects (lines 212 to 216) and dropping those behind the camera
  (lines 219 and 220).\<close>

definition updateObjects :: "state \<Rightarrow> state" where
  "updateObjects s =
     s\<lparr> obstacles := map (\<lambda>ob. ob\<lparr>o_z := o_z ob - speed s\<rparr>) (obstacles s),
        items := map (\<lambda>c. c\<lparr>c_z := c_z c - speed s, angle := angle c + 0.1\<rparr>) (items s) \<rparr>"

definition cleanup :: "state \<Rightarrow> state" where
  "cleanup s =
     s\<lparr> obstacles := filter (\<lambda>ob. o_z ob > -200) (obstacles s),
        items := filter (\<lambda>i. c_z i > -200) (items s) \<rparr>"

text \<open>The body of the obstacle \<^verbatim>\<open>forEach\<close> (lines 227 to 240): it may change the state and
  the obstacle it looks at.\<close>

definition collideObstacle :: "state \<Rightarrow> Obstacle \<Rightarrow> state \<times> Obstacle" where
  "collideObstacle s ob =
     (if \<not> passed ob \<and> o_z ob < 250 \<and> o_z ob > 50 then
        (if o_lane ob = p_lane (player s) then
           (if p_y (player s) < -50 \<and> o_type ob = Barrier then (s, ob)
            else (s\<lparr> policeDistance := policeDistance s - 40,
                     player := (player s)\<lparr>stumbleCooldown := 20\<rparr> \<rparr>,
                  ob\<lparr>passed := True\<rparr>))
         else (s, ob))
      else (s, ob))"

fun collideObstacles :: "state \<Rightarrow> Obstacle list \<Rightarrow> state \<times> Obstacle list" where
  "collideObstacles s [] = (s, [])"
| "collideObstacles s (ob # obs) =
     (case collideObstacle s ob of (s1, ob1) \<Rightarrow>
        (case collideObstacles s1 obs of (s2, obs1) \<Rightarrow> (s2, ob1 # obs1)))"

definition collisionDetection :: "state \<Rightarrow> state" where
  "collisionDetection s =
     (case collideObstacles s (obstacles s) of (s1, obs1) \<Rightarrow> s1\<lparr>obstacles := obs1\<rparr>)"

text \<open>The body of the coin \<^verbatim>\<open>forEach\<close> (lines 244 to 260).\<close>

definition collectItem :: "state \<Rightarrow> Coin \<Rightarrow> state \<times> Coin" where
  "collectItem s c =
     (if active c \<and> c_z c < 150 \<and> c_z c > 50 \<and> c_lane c = p_lane (player s) then
        (if p_y (player s) > -100
         then (s\<lparr>coins := coins s + 1\<rparr>, c\<lparr>active := False\<rparr>)
         else (s, c))
      else (s, c))"

fun collectItems :: "state \<Rightarrow> Coin list \<Rightarrow> state \<times> Coin list" where
  "collectItems s [] = (s, [])"
| "collectItems s (c # cs) =
     (case collectItem s c of (s1, c1) \<Rightarrow>
        (case collectItems s1 cs of (s2, cs1) \<Rightarrow> (s2, c1 # cs1)))"

definition coinCollection :: "state \<Rightarrow> state" where
  "coinCollection s =
     (case collectItems s (items s) of (s1, cs1) \<Rightarrow> s1\<lparr>items := cs1\<rparr>)"

subsection \<open>One frame\<close>

text \<open>The block under \<^verbatim>\<open>if (gameState === 'playing')\<close>, in the order of the source.\<close>

definition update :: "real \<Rightarrow> real \<Rightarrow> state \<Rightarrow> state" where
  "update r1 r2 s =
     (let s1 = advanceRun s;
          s2 = s1\<lparr>player := physics (player s1)\<rparr>;
          s3 = policeCatchup s2;
          s4 = spawning r1 r2 s3;
          s5 = updateObjects s4;
          s6 = cleanup s5;
          s7 = collisionDetection s6
      in coinCollection s7)"

definition loop :: "real \<Rightarrow> real \<Rightarrow> state \<Rightarrow> state" where
  "loop r1 r2 s =
     (if gameOver s then s
      else if gameState s = Playing then update r1 r2 s
      else s)"

subsection \<open>Events and runs\<close>

text \<open>
  What reaches the component: an animation frame, a key press, a click on the start button
  (shown only on the start screen) and a click on "Play Again" (shown only on the game-over
  overlay), which sets \<^verbatim>\<open>gameState = 'start'\<close> and thereby runs \<^verbatim>\<open>resetGame\<close>.
\<close>

datatype event = Frame real real | KeyDown string | StartClick | RestartClick

fun step :: "event \<Rightarrow> state \<Rightarrow> state" where
  "step (Frame r1 r2) s = loop r1 r2 s"
| "step (KeyDown k) s = handleKeyDown k s"
| "step StartClick s = (if gameState s = Start then s\<lparr>gameState := Playing\<rparr> else s)"
| "step RestartClick s =
     (if gameState s = Gameover then resetGame (s\<lparr>gameState := Start\<rparr>) else s)"

text \<open>\<^verbatim>\<open>Math.random()\<close> returns a number in \<open>[0, 1)\<close>.\<close>

fun valid_event :: "event \<Rightarrow> bool" where
  "valid_event (Frame r1 r2) = (0 \<le> r1 \<and> r1 < 1 \<and> 0 \<le> r2 \<and> r2 < 1)"
| "valid_event _ = True"

fun run :: "event list \<Rightarrow> state \<Rightarrow> state" where
  "run [] s = s"
| "run (e # es) s = run es (step e s)"

inductive reachable :: "state \<Rightarrow> bool" where
  reachable_initial: "reachable initial"
| reachable_step: "reachable s \<Longrightarrow> valid_event e \<Longrightarrow> reachable (step e s)"

subsection \<open>The tests of the two collision loops\<close>

text \<open>The condition under which the obstacle loop penalises an obstacle, and the one under
  which the coin loop collects a coin, as the source tests them; \<open>penalised n\<close> is the
  effect of \<open>n\<close> crashes on the state.\<close>

definition crashes :: "Player \<Rightarrow> Obstacle \<Rightarrow> bool" where
  "crashes p ob =
     (\<not> passed ob \<and> o_z ob < 250 \<and> o_z ob > 50 \<and> o_lane ob = p_lane p \<and>
      \<not> (p_y p < -50 \<and> o_type ob = Barrier))"

definition collects :: "Player \<Rightarrow> Coin \<Rightarrow> bool" where
  "collects p c =
     (active c \<and> c_z c < 150 \<and> c_z c > 50 \<and> c_lane c = p_lane p \<and> p_y p > -100)"

definition penalised :: "nat \<Rightarrow> state \<Rightarrow> state" where
  "penalised n s =
     (if n = 0 then s
      else s\<lparr> policeDistance := policeDistance s - 40 * real n,
              player := (player s)\<lparr>stumbleCooldown := 20\<rparr> \<rparr>)"

subsection \<open>Predicates on states and events\<close>

fun is_frame :: "event \<Rightarrow> bool" where
  "is_frame (Frame r1 r2) = True"
| "is_frame _ = False"

text \<open>Every lane of the state is one of the \<open>LANE_COUNT\<close> lanes.\<close>

definition lanes_ok :: "state \<Rightarrow> bool" where
  "lanes_ok s =
     (0 \<le> p_lane (player s) \<and> p_lane (player s) \<le> LANE_COUNT - 1 \<and>
      (\<forall>ob \<in> set (obstacles s). 0 \<le> o_lane ob \<and> o_lane ob \<le> LANE_COUNT - 1) \<and>
      (\<forall>c \<in> set (items s). 0 \<le> c_lane c \<and> c_lane c \<le> LANE_COUNT - 1))"

text \<open>The meter is below 100 plus one recovery step of 0.2.\<close>

definition meter_bounded :: "state \<Rightarrow> bool" where
  "meter_bounded s = (policeDistance s < 100 + 0.2)"

subsection \<open>The physics step as the specification words it\<close>

text \<open>
  The specification reads
  \<^verbatim>\<open>verticalVelocity += GRAVITY*dt; verticalOffset += verticalVelocity*dt\<close>: the velocity
  first, the position from the updated velocity. This definition follows those words and
  is only compared with \<open>physics\<close>, which follows the source.
\<close>

definition physics_as_specified :: "Player \<Rightarrow> Player" where
  "physics_as_specified p =
     (if isJumping p then
        (let p1 = p\<lparr>p_vy := p_vy p + GRAVITY\<rparr>;
             p2 = p1\<lparr>p_y := p_y p1 + p_vy p1\<rparr>
         in if p_y p2 \<ge> 0 then p2\<lparr>p_y := 0, isJumping := False\<rparr> else p2)
      else p)"

subsection \<open>Concrete states\<close>

text \<open>
  \<open>straight_run n\<close> is the state after the start button and \<open>n\<close> frames in which the
  player never touches a key, every obstacle spawns in the middle lane (the player's) as a
  barrier and the coins beside it.
\<close>

definition straight_run :: "nat \<Rightarrow> state" where
  "straight_run n = run (StartClick # replicate n (Frame (1 / 2) 0)) initial"

text \<open>A state in the middle of a run, with a given player and given pools.\<close>

definition mid_run :: "Player \<Rightarrow> Obstacle list \<Rightarrow> Coin list \<Rightarrow> state" where
  "mid_run p obs cs =
     \<lparr> gameState = Playing, speed = 13, distance = 2500, score = 250, coins = 0,
       player = p, policeDistance = 100, obstacles = obs, items = cs,
       lastSpawnZ = 2400, gameOver = False \<rparr>"

definition airborne_player :: Player where
  "airborne_player =
     \<lparr> p_lane = 1, p_y = -120, p_vy = 2, isJumping = True, stumbleCooldown = 0 \<rparr>"

definition grounded_player :: Player where
  "grounded_player =
     \<lparr> p_lane = 1, p_y = 0, p_vy = 0, isJumping = False, stumbleCooldown = 0 \<rparr>"

text \<open>The player in the frame after a jump key: on the ground, with \<open>JUMP_FORCE\<close>.\<close>

definition jump_start :: Player where
  "jump_start =
     \<lparr> p_lane = 1, p_y = 0, p_vy = -15, isJumping = True, stumbleCooldown = 0 \<rparr>"

definition near_obstacle :: "ObstacleType \<Rightarrow> Obstacle" where
  "near_obstacle t = \<lparr> o_lane = 1, o_z = 150, o_type = t, passed = False \<rparr>"

definition coin_at :: "real \<Rightarrow> Coin" where
  "coin_at z = \<lparr> c_lane = 1, c_z = z, active = True, angle = 0 \<rparr>"

section \<open>Properties\<close>

subsection \<open>The collision loops\<close>

lemma collideObstacle_eq:
  "collideObstacle s ob =
     (if crashes (player s) ob
      then (s\<lparr> policeDistance := policeDistance s - 40,
               player := (player s)\<lparr>stumbleCooldown := 20\<rparr> \<rparr>, ob\<lparr>passed := True\<rparr>)
      else (s, ob))"
  by (auto simp: collideObstacle_def crashes_def)

lemma crashes_stumble [simp]: "crashes (p\<lparr>stumbleCooldown := v\<rparr>) = crashes p"
  by (auto simp: crashes_def fun_eq_iff)

lemma crashes_penalised [simp]: "crashes (player (penalised n s)) = crashes (player s)"
  by (auto simp: penalised_def crashes_def fun_eq_iff)

lemma penalised_Suc:
  "penalised n (s\<lparr> policeDistance := policeDistance s - 40,
               player := (player s)\<lparr>stumbleCooldown := 20\<rparr> \<rparr>) = penalised (Suc n) s"
  by (simp add: penalised_def algebra_simps)

lemma collideObstacles_eq:
  "collideObstacles s obs =
     (penalised (length (filter (crashes (player s)) obs)) s,
      map (\<lambda>ob. if crashes (player s) ob then ob\<lparr>passed := True\<rparr> else ob) obs)"
proof (induction obs arbitrary: s)
  case Nil
  show ?case by (simp add: penalised_def)
next
  case (Cons ob obs)
  show ?case
  proof (cases "crashes (player s) ob")
    case True
    then show ?thesis
      by (simp add: collideObstacle_eq Cons.IH penalised_Suc)
  next
    case False
    then show ?thesis
      by (simp add: collideObstacle_eq Cons.IH)
  qed
qed

lemma collisionDetection_eq:
  "collisionDetection s =
     (penalised (length (filter (crashes (player s)) (obstacles s))) s)
       \<lparr>obstacles := map (\<lambda>ob. if crashes (player s) ob then ob\<lparr>passed := True\<rparr> else ob) (obstacles s)\<rparr>"
  by (simp add: collisionDetection_def collideObstacles_eq)

lemma collectItem_eq:
  "collectItem s c =
     (if collects (player s) c then (s\<lparr>coins := coins s + 1\<rparr>, c\<lparr>active := False\<rparr>) else (s, c))"
  by (auto simp: collectItem_def collects_def)

lemma collectItems_eq:
  "collectItems s cs =
     (s\<lparr>coins := coins s + int (length (filter (collects (player s)) cs))\<rparr>,
      map (\<lambda>c. if collects (player s) c then c\<lparr>active := False\<rparr> else c) cs)"
proof (induction cs arbitrary: s)
  case Nil
  show ?case by simp
next
  case (Cons c cs)
  show ?case
    by (cases "collects (player s) c") (simp_all add: collectItem_eq Cons.IH)
qed

lemma coinCollection_eq:
  "coinCollection s =
     s\<lparr> coins := coins s + int (length (filter (collects (player s)) (items s))),
        items := map (\<lambda>c. if collects (player s) c then c\<lparr>active := False\<rparr> else c) (items s) \<rparr>"
  by (simp add: coinCollection_def collectItems_eq)


lemmas example_defs = mid_run_def airborne_player_def grounded_player_def jump_start_def
  near_obstacle_def coin_at_def

subsection \<open>One frame as a composition of its phases\<close>

lemma update_comp:
  "update r1 r2 s =
     coinCollection (collisionDetection (cleanup (updateObjects (spawning r1 r2
       (policeCatchup ((advanceRun s)\<lparr>player := physics (player (advanceRun s))\<rparr>))))))"
  by (simp add: update_def Let_def)

lemma player_advanceRun [simp]: "player (advanceRun s) = player s"
  by (simp add: advanceRun_def Let_def)

lemma player_policeCatchup [simp]: "player (policeCatchup s) = player s"
  by (simp add: policeCatchup_def Let_def)

lemma player_spawning [simp]: "player (spawning r1 r2 s) = player s"
  by (simp add: spawning_def Let_def)

lemma player_updateObjects [simp]: "player (updateObjects s) = player s"
  by (simp add: updateObjects_def)

lemma player_cleanup [simp]: "player (cleanup s) = player s"
  by (simp add: cleanup_def)

lemma player_collisionDetection:
  "player (collisionDetection s) = player s \<or>
   player (collisionDetection s) = (player s)\<lparr>stumbleCooldown := 20\<rparr>"
  by (simp add: collisionDetection_eq penalised_def)

lemma player_coinCollection [simp]: "player (coinCollection s) = player s"
  by (simp add: coinCollection_eq)

lemma player_update:
  "player (update r1 r2 s) = physics (player s) \<or>
   player (update r1 r2 s) = (physics (player s))\<lparr>stumbleCooldown := 20\<rparr>"
  using player_collisionDetection [of "cleanup (updateObjects (spawning r1 r2
       (policeCatchup ((advanceRun s)\<lparr>player := physics (player (advanceRun s))\<rparr>))))"]
  by (simp add: update_comp)

lemma p_lane_physics [simp]: "p_lane (physics p) = p_lane p"
  by (simp add: physics_def Let_def)

lemma stumbleCooldown_physics [simp]: "stumbleCooldown (physics p) = stumbleCooldown p"
  by (simp add: physics_def Let_def)

lemma update_player:
  "p_y (player (update r1 r2 s)) = p_y (physics (player s)) \<and>
   p_vy (player (update r1 r2 s)) = p_vy (physics (player s)) \<and>
   isJumping (player (update r1 r2 s)) = isJumping (physics (player s)) \<and>
   p_lane (player (update r1 r2 s)) = p_lane (player s)"
  using player_update [of r1 r2 s] by auto

subsection \<open>Spawned lanes\<close>

lemma floor_random_lane:
  fixes r :: real
  assumes "0 \<le> r" and "r < 1"
  shows "0 \<le> \<lfloor>r * 3\<rfloor> \<and> \<lfloor>r * 3\<rfloor> \<le> 2"
proof -
  from assms have "0 \<le> r * 3" and "r * 3 < 3" by simp_all
  then have "0 \<le> \<lfloor>r * 3\<rfloor>" and "\<lfloor>r * 3\<rfloor> < 3"
    by (simp_all add: floor_less_iff)
  then show ?thesis by simp
qed

lemma js_rem_lane:
  assumes "0 \<le> l" and "l \<le> 2"
  shows "js_rem (l + 1) 3 = (l + 1) mod 3 \<and> 0 \<le> js_rem (l + 1) 3 \<and> js_rem (l + 1) 3 \<le> 2 \<and>
         js_rem (l + 1) 3 \<noteq> l"
proof -
  from assms have "l = 0 \<or> l = 1 \<or> l = 2" by arith
  then show ?thesis by (auto simp: js_rem_def)
qed

lemma js_rem_differs: "js_rem (l + 1) 3 \<noteq> l"
  by (auto simp: js_rem_def sgn_if) arith+

subsection \<open>Runs\<close>

lemma run_append: "run (es @ fs) s = run fs (run es s)"
  by (induction es arbitrary: s) simp_all

lemma reachable_run: "reachable s \<Longrightarrow> list_all valid_event es \<Longrightarrow> reachable (run es s)"
proof (induction es arbitrary: s)
  case Nil
  then show ?case by simp
next
  case (Cons e es)
  from Cons.prems have "reachable (step e s)"
    by (simp add: reachable_step)
  with Cons show ?case by simp
qed

lemma straight_run_Suc: "straight_run (Suc n) = loop (1 / 2) 0 (straight_run n)"
proof -
  have "StartClick # replicate (Suc n) (Frame (1 / 2) 0)
          = (StartClick # replicate n (Frame (1 / 2) 0)) @ [Frame (1 / 2) 0]"
    by (simp add: replicate_append_same)
  then show ?thesis
    by (simp only: straight_run_def run_append) simp
qed

lemma reachable_straight_run: "reachable (straight_run n)"
  unfolding straight_run_def
  by (rule reachable_run [OF reachable_initial]) (simp add: list_all_iff)

subsection \<open>What each phase leaves alone\<close>

lemma policeDistance_advanceRun [simp]: "policeDistance (advanceRun s) = policeDistance s"
  by (simp add: advanceRun_def Let_def)

lemma policeDistance_spawning [simp]: "policeDistance (spawning r1 r2 s) = policeDistance s"
  by (simp add: spawning_def Let_def)

lemma policeDistance_updateObjects [simp]: "policeDistance (updateObjects s) = policeDistance s"
  by (simp add: updateObjects_def)

lemma policeDistance_cleanup [simp]: "policeDistance (cleanup s) = policeDistance s"
  by (simp add: cleanup_def)

lemma policeDistance_coinCollection [simp]: "policeDistance (coinCollection s) = policeDistance s"
  by (simp add: coinCollection_eq)

lemma policeDistance_collisionDetection:
  "policeDistance (collisionDetection s)
     = policeDistance s - 40 * real (length (filter (crashes (player s)) (obstacles s)))"
  by (simp add: collisionDetection_eq penalised_def)

lemma policeDistance_policeCatchup:
  "policeDistance (policeCatchup s)
     = (if policeDistance s < 100 then policeDistance s + 0.2 else policeDistance s)"
  by (simp add: policeCatchup_def Let_def)

lemma policeDistance_update:
  "\<exists>n. policeDistance (update r1 r2 s)
     = (if policeDistance s < 100 then policeDistance s + 0.2 else policeDistance s) - 40 * real n"
  by (simp add: update_comp policeDistance_collisionDetection policeDistance_policeCatchup)

lemma ended_advanceRun [simp]:
  "gameOver (advanceRun s) = gameOver s" "gameState (advanceRun s) = gameState s"
  by (simp_all add: advanceRun_def Let_def)

lemma ended_spawning [simp]:
  "gameOver (spawning r1 r2 s) = gameOver s" "gameState (spawning r1 r2 s) = gameState s"
  by (simp_all add: spawning_def Let_def)

lemma ended_updateObjects [simp]:
  "gameOver (updateObjects s) = gameOver s" "gameState (updateObjects s) = gameState s"
  by (simp_all add: updateObjects_def)

lemma ended_cleanup [simp]:
  "gameOver (cleanup s) = gameOver s" "gameState (cleanup s) = gameState s"
  by (simp_all add: cleanup_def)

lemma ended_collisionDetection [simp]:
  "gameOver (collisionDetection s) = gameOver s" "gameState (collisionDetection s) = gameState s"
  by (simp_all add: collisionDetection_eq penalised_def)

lemma ended_coinCollection [simp]:
  "gameOver (coinCollection s) = gameOver s" "gameState (coinCollection s) = gameState s"
  by (simp_all add: coinCollection_eq)

lemma ended_policeCatchup:
  "gameOver (policeCatchup s) = (gameOver s \<or> policeDistance s \<le> - 0.2)"
  "gameState (policeCatchup s) = (if policeDistance s \<le> - 0.2 then Gameover else gameState s)"
  by (auto simp: policeCatchup_def Let_def)

lemma ended_update:
  "gameOver (update r1 r2 s) = (gameOver s \<or> policeDistance s \<le> - 0.2)"
  "gameState (update r1 r2 s) = (if policeDistance s \<le> - 0.2 then Gameover else gameState s)"
  by (simp_all add: update_comp ended_policeCatchup)

lemma ended_handleKeyDown [simp]:
  "gameOver (handleKeyDown k s) = gameOver s" "gameState (handleKeyDown k s) = gameState s"
  by (simp_all add: handleKeyDown_def)


subsection \<open>The meter\<close>

lemma meter_bounded_update:
  assumes "meter_bounded s"
  shows "meter_bounded (update r1 r2 s)"
proof -
  let ?r = "if policeDistance s < 100 then policeDistance s + 0.2 else policeDistance s"
  obtain n where n: "policeDistance (update r1 r2 s) = ?r - 40 * real n"
    using policeDistance_update by blast
  from assms have "?r < 100 + 0.2"
    by (simp add: meter_bounded_def)
  moreover have "0 \<le> 40 * real n"
    by simp
  ultimately have "?r - 40 * real n < 100 + 0.2"
    by linarith
  with n show ?thesis
    by (simp add: meter_bounded_def)
qed

lemma meter_bounded_step:
  assumes "meter_bounded s"
  shows "meter_bounded (step e s)"
proof (cases e)
  case (Frame r1 r2)
  with assms show ?thesis
    by (simp add: loop_def meter_bounded_update)
next
  case (KeyDown k)
  with assms show ?thesis
    by (simp add: meter_bounded_def handleKeyDown_def)
next
  case StartClick
  with assms show ?thesis
    by (simp add: meter_bounded_def)
next
  case RestartClick
  with assms show ?thesis
    by (simp add: meter_bounded_def resetGame_def)
qed

lemma meter_bounded_reachable: "reachable s \<Longrightarrow> meter_bounded s"
proof (induction rule: reachable.induct)
  case reachable_initial
  show ?case by (simp add: meter_bounded_def initial_def)
next
  case (reachable_step s e)
  then show ?case by (simp add: meter_bounded_step)
qed

subsection \<open>Lanes\<close>

lemma lanes_ok_advanceRun: "lanes_ok (advanceRun s) = lanes_ok s"
  by (simp add: lanes_ok_def advanceRun_def Let_def)

lemma lanes_ok_physics: "lanes_ok (s\<lparr>player := physics (player s)\<rparr>) = lanes_ok s"
  by (simp add: lanes_ok_def)

lemma lanes_ok_policeCatchup: "lanes_ok (policeCatchup s) = lanes_ok s"
  by (simp add: lanes_ok_def policeCatchup_def Let_def)

lemma lanes_ok_spawning:
  assumes "lanes_ok s" and "0 \<le> r1" and "r1 < 1"
  shows "lanes_ok (spawning r1 r2 s)"
proof -
  from assms(2,3) have l: "0 \<le> \<lfloor>r1 * 3\<rfloor> \<and> \<lfloor>r1 * 3\<rfloor> \<le> 2"
    by (rule floor_random_lane)
  then have "0 \<le> js_rem (\<lfloor>r1 * 3\<rfloor> + 1) 3 \<and> js_rem (\<lfloor>r1 * 3\<rfloor> + 1) 3 \<le> 2"
    using js_rem_lane [of "\<lfloor>r1 * 3\<rfloor>"] by simp
  with l assms(1) show ?thesis
    by (auto simp: lanes_ok_def spawning_def Let_def LANE_COUNT_def)
qed

lemma lanes_ok_updateObjects: "lanes_ok (updateObjects s) = lanes_ok s"
  by (simp add: lanes_ok_def updateObjects_def)

lemma lanes_ok_cleanup: "lanes_ok s \<Longrightarrow> lanes_ok (cleanup s)"
  by (simp add: lanes_ok_def cleanup_def)

lemma ball_map_if:
  assumes "\<And>x. Q (f x) = Q x"
  shows "(\<forall>y \<in> set (map (\<lambda>x. if P x then f x else x) xs). Q y) = (\<forall>x \<in> set xs. Q x)"
  by (induction xs) (simp_all add: assms)

lemma lanes_ok_collisionDetection: "lanes_ok (collisionDetection s) = lanes_ok s"
  by (simp add: lanes_ok_def collisionDetection_eq penalised_def ball_map_if del: set_map)

lemma lanes_ok_coinCollection: "lanes_ok (coinCollection s) = lanes_ok s"
  by (simp add: lanes_ok_def coinCollection_eq ball_map_if del: set_map)

lemma lanes_ok_update:
  assumes "lanes_ok s" and "0 \<le> r1" and "r1 < 1"
  shows "lanes_ok (update r1 r2 s)"
proof -
  let ?s2 = "(advanceRun s)\<lparr>player := physics (player (advanceRun s))\<rparr>"
  from assms(1) have "lanes_ok (policeCatchup ?s2)"
    by (simp only: lanes_ok_policeCatchup lanes_ok_physics lanes_ok_advanceRun)
  then have "lanes_ok (spawning r1 r2 (policeCatchup ?s2))"
    using assms(2,3) by (rule lanes_ok_spawning)
  then have "lanes_ok (cleanup (updateObjects (spawning r1 r2 (policeCatchup ?s2))))"
    by (simp only: lanes_ok_cleanup lanes_ok_updateObjects)
  then show ?thesis
    by (simp only: update_comp lanes_ok_coinCollection lanes_ok_collisionDetection)
qed

lemma lanes_ok_handleKeyDown: "lanes_ok s \<Longrightarrow> lanes_ok (handleKeyDown k s)"
  by (simp add: lanes_ok_def handleKeyDown_def LANE_COUNT_def)

lemma lanes_ok_step:
  assumes "lanes_ok s" and "valid_event e"
  shows "lanes_ok (step e s)"
proof (cases e)
  case (Frame r1 r2)
  with assms show ?thesis
    by (simp add: loop_def lanes_ok_update)
next
  case (KeyDown k)
  with assms show ?thesis
    by (simp add: lanes_ok_handleKeyDown)
next
  case StartClick
  with assms show ?thesis
    by (simp add: lanes_ok_def)
next
  case RestartClick
  with assms show ?thesis
    by (simp add: lanes_ok_def resetGame_def LANE_COUNT_def)
qed

subsection \<open>The stumble counter\<close>

lemma stumbleCooldown_update:
  "stumbleCooldown (player (update r1 r2 s)) = stumbleCooldown (player s) \<or>
   stumbleCooldown (player (update r1 r2 s)) = 20"
  using player_update [of r1 r2 s] by auto

lemma stumbleCooldown_step:
  assumes "e \<noteq> RestartClick"
  shows "stumbleCooldown (player (step e s)) = stumbleCooldown (player s) \<or>
         stumbleCooldown (player (step e s)) = 20"
proof (cases e)
  case (Frame r1 r2)
  then show ?thesis
    using stumbleCooldown_update [of r1 r2 s] by (simp add: loop_def)
next
  case (KeyDown k)
  then show ?thesis
    by (simp add: handleKeyDown_def)
next
  case StartClick
  then show ?thesis by simp
next
  case RestartClick
  with assms show ?thesis by simp
qed

lemma stumbleCooldown_run:
  assumes "stumbleCooldown (player s) = 20" and "RestartClick \<notin> set es"
  shows "stumbleCooldown (player (run es s)) = 20"
  using assms
proof (induction es arbitrary: s)
  case Nil
  then show ?case by simp
next
  case (Cons e es)
  from Cons.prems have "e \<noteq> RestartClick" by auto
  then have "stumbleCooldown (player (step e s)) = 20"
    using stumbleCooldown_step [of e s] Cons.prems(1) by auto
  with Cons show ?case by simp
qed

subsection \<open>The end of a run\<close>

lemma ended_step:
  assumes "\<not> gameOver s" and "gameState s \<noteq> Gameover"
  shows "gameOver (step e s)
           = (is_frame e \<and> gameState s = Playing \<and> policeDistance s \<le> - 0.2)"
    and "(gameState (step e s) = Gameover)
           = (is_frame e \<and> gameState s = Playing \<and> policeDistance s \<le> - 0.2)"
  using assms by (cases e; simp add: loop_def ended_update resetGame_def)+

lemma frozen_step:
  assumes "gameOver s" and "gameState s = Gameover" and "e \<noteq> RestartClick"
  shows "step e s = s"
  using assms by (cases e) (simp_all add: loop_def handleKeyDown_def)

lemma frozen_run:
  assumes "gameOver s" and "gameState s = Gameover" and "RestartClick \<notin> set es"
  shows "run es s = s"
  using assms(3)
proof (induction es)
  case Nil
  show ?case by simp
next
  case (Cons e es)
  then have "e \<noteq> RestartClick" by auto
  with assms(1,2) have "step e s = s" by (rule frozen_step)
  with Cons show ?case by simp
qed

lemma phase_sync_step:
  assumes "gameOver s = (gameState s = Gameover)"
  shows "gameOver (step e s) = (gameState (step e s) = Gameover)"
proof (cases "gameOver s")
  case True
  with assms show ?thesis
    by (cases e) (simp_all add: loop_def resetGame_def)
next
  case False
  with assms show ?thesis
    using ended_step [of s e] by simp
qed

lemma phase_sync_reachable: "reachable s \<Longrightarrow> gameOver s = (gameState s = Gameover)"
proof (induction rule: reachable.induct)
  case reachable_initial
  show ?case by (simp add: initial_def)
next
  case (reachable_step s e)
  then show ?case by (simp add: phase_sync_step)
qed

subsection \<open>A run that is caught\<close>

text \<open>
  Rewrite rules that evaluate one frame on a concrete state, and the state they compute
  after 382 frames of \<open>straight_run\<close>: three barriers were hit (in the frames 204, 265 and
  325), the fourth is about to enter the near band, and the meter stands at 15.6.
\<close>

lemma run_replicate_numeral:
  "run (replicate (numeral k) e) s = run (replicate (pred_numeral k) e) (step e s)"
  by (simp add: numeral_eq_Suc)

lemma advanceRun_eq:
  "advanceRun s =
     s\<lparr> speed := speed s + 1 / 200, distance := distance s + (speed s + 1 / 200),
        score := \<lfloor>(distance s + (speed s + 1 / 200)) / 10\<rfloor> \<rparr>"
  by (simp add: advanceRun_def Let_def SPEED_INCREMENT_def)

lemma physics_grounded: "\<not> isJumping p \<Longrightarrow> physics p = p"
  by (simp add: physics_def)

lemma policeCatchup_eq:
  "policeCatchup s =
     (if policeDistance s < 100 then
        (if policeDistance s + 1 / 5 \<le> 0
         then s\<lparr>policeDistance := policeDistance s + 1 / 5, gameOver := True, gameState := Gameover\<rparr>
         else s\<lparr>policeDistance := policeDistance s + 1 / 5\<rparr>)
      else (if policeDistance s \<le> 0 then s\<lparr>gameOver := True, gameState := Gameover\<rparr> else s))"
  by (simp add: policeCatchup_def Let_def)

lemma spawning_middle_barrier:
  "spawning (1 / 2) 0 s =
     (if distance s - lastSpawnZ s > 800 then
        s\<lparr> lastSpawnZ := distance s,
           obstacles := obstacles s @
             [\<lparr> o_lane = 1, o_z = 2000, o_type = Barrier, passed = False \<rparr>],
           items := items s @
             [\<lparr> c_lane = 2, c_z = 2000, active = True, angle = 0 \<rparr>,
              \<lparr> c_lane = 2, c_z = 2150, active = True, angle = 0 \<rparr>,
              \<lparr> c_lane = 2, c_z = 2300, active = True, angle = 0 \<rparr>] \<rparr>
      else s)"
  by (simp add: spawning_def Let_def js_rem_def)

lemmas frame_eval = loop_def update_comp advanceRun_eq physics_grounded policeCatchup_eq
  spawning_middle_barrier updateObjects_def cleanup_def collisionDetection_def
  coinCollection_def collideObstacle_def collectItem_def

lemma straight_run_382:
  "straight_run 382 =
     \<lparr> gameState = Playing, speed = 1391 / 100, distance = 989953 / 200, score = 494, coins = 0,
       player = \<lparr> p_lane = 1, p_y = 0, p_vy = 0, isJumping = False, stumbleCooldown = 20 \<rparr>,
       policeDistance = 78 / 5,
       obstacles =
         [\<lparr> o_lane = 1, o_z = 6504 / 25, o_type = Barrier, passed = False \<rparr>,
          \<lparr> o_lane = 1, o_z = 106551 / 100, o_type = Barrier, passed = False \<rparr>,
          \<lparr> o_lane = 1, o_z = 187499 / 100, o_type = Barrier, passed = False \<rparr>],
       items =
         [\<lparr> c_lane = 2, c_z = 6504 / 25, active = True, angle = 64 / 5 \<rparr>,
          \<lparr> c_lane = 2, c_z = 10254 / 25, active = True, angle = 64 / 5 \<rparr>,
          \<lparr> c_lane = 2, c_z = 14004 / 25, active = True, angle = 64 / 5 \<rparr>,
          \<lparr> c_lane = 2, c_z = 106551 / 100, active = True, angle = 34 / 5 \<rparr>,
          \<lparr> c_lane = 2, c_z = 121551 / 100, active = True, angle = 34 / 5 \<rparr>,
          \<lparr> c_lane = 2, c_z = 136551 / 100, active = True, angle = 34 / 5 \<rparr>,
          \<lparr> c_lane = 2, c_z = 187499 / 100, active = True, angle = 9 / 10 \<rparr>,
          \<lparr> c_lane = 2, c_z = 202499 / 100, active = True, angle = 9 / 10 \<rparr>,
          \<lparr> c_lane = 2, c_z = 217499 / 100, active = True, angle = 9 / 10 \<rparr>],
       lastSpawnZ = 38709 / 8, gameOver = False \<rparr>"
  by (simp add: straight_run_def initial_def SPEED_INITIAL_def run_replicate_numeral frame_eval)

lemma straight_run_382_meter: "policeDistance (straight_run 382) = 78 / 5"
  by (simp add: straight_run_382)

lemma straight_run_383:
  "policeDistance (straight_run 383) = - (121 / 5)"
  "gameOver (straight_run 383) = False"
  "gameState (straight_run 383) = Playing"
  "stumbleCooldown (player (straight_run 383)) = 20"
proof -
  have "straight_run 383 = loop (1 / 2) 0 (straight_run 382)"
    using straight_run_Suc [of 382] by simp
  then show "policeDistance (straight_run 383) = - (121 / 5)"
    "gameOver (straight_run 383) = False"
    "gameState (straight_run 383) = Playing"
    "stumbleCooldown (player (straight_run 383)) = 20"
    by (simp_all add: straight_run_382 frame_eval)
qed


lemma straight_run_384:
  "gameOver (straight_run 384)" "gameState (straight_run 384) = Gameover"
proof -
  have "straight_run 384 = step (Frame (1 / 2) 0) (straight_run 383)"
    using straight_run_Suc [of 383] by simp
  then show "gameOver (straight_run 384)" "gameState (straight_run 384) = Gameover"
    using ended_step [of "straight_run 383" "Frame (1 / 2) 0"]
    by (simp_all add: straight_run_383)
qed

section \<open>The claims\<close>

subsection \<open>C1: the range of the pursuit meter\<close>

text \<open>
  C1, as stated, fails. The code has no clamp: a crash subtracts 40 from
  \<open>policeDistance\<close> whatever its value. After 383 frames of \<open>straight_run\<close> the fourth
  barrier is hit with the meter at 15.8, and the reachable state has a meter of -24.2.
\<close>

theorem meter_negative_counterexample:
  "reachable (straight_run 383) \<and> policeDistance (straight_run 383) < 0"
  by (simp add: reachable_straight_run straight_run_383)

text \<open>
  C1, amended: in every reachable state the meter is below 100.2, that is below the maximum
  of 100 plus one recovery step. The passive recovery adds 0.2 in a frame only while the
  meter is below 100, and nothing clamps the sum to 100; a crash subtracts exactly 40, with no
  clamp at 0, so the meter can be negative.
\<close>

theorem meter_upper_bound:
  "(reachable s \<longrightarrow> policeDistance s < 100 + 0.2) \<and>
   policeDistance (policeCatchup s)
     = (if policeDistance s < 100 then policeDistance s + 0.2 else policeDistance s) \<and>
   (crashes (player s) ob \<longrightarrow>
      policeDistance (fst (collideObstacle s ob)) = policeDistance s - 40)"
  using meter_bounded_reachable [of s]
  by (simp add: meter_bounded_def policeDistance_policeCatchup collideObstacle_eq)

theorem meter_upper_bound_witness:
  "reachable (straight_run 383) \<and> policeDistance (straight_run 383) < 100 + 0.2 \<and>
   reachable (straight_run 382) \<and> policeDistance (straight_run 382) < 100 + 0.2 \<and>
   policeDistance (policeCatchup (straight_run 382)) = 79 / 5 \<and>
   policeDistance (fst (collideObstacle (mid_run grounded_player [] []) (near_obstacle Train))) = 60"
  using meter_upper_bound [of "straight_run 383"]
    meter_upper_bound [of "straight_run 382"]
    meter_upper_bound [of "mid_run grounded_player [] []" "near_obstacle Train"]
  by (simp add: reachable_straight_run straight_run_382_meter crashes_def example_defs)

subsection \<open>C2: when a run ends\<close>

text \<open>
  C2, as stated, fails. The meter check comes before the collision loop of the same frame.
  In frame 383 of \<open>straight_run\<close> the crash takes the meter from above 0 to below 0, and at
  the end of that frame the run is still going.
\<close>

theorem ended_same_tick_counterexample:
  "reachable (straight_run 382) \<and> 0 < policeDistance (straight_run 382) \<and>
   policeDistance (loop (1 / 2) 0 (straight_run 382)) \<le> 0 \<and>
   \<not> gameOver (loop (1 / 2) 0 (straight_run 382)) \<and>
   gameState (loop (1 / 2) 0 (straight_run 382)) = Playing"
proof -
  have "loop (1 / 2) 0 (straight_run 382) = straight_run 383"
    using straight_run_Suc [of 382] by simp
  then show ?thesis
    by (simp add: reachable_straight_run straight_run_382_meter straight_run_383)
qed

text \<open>
  C2, amended: for a run that has not ended, a frame of a playing game whose meter is still
  at most 0 after the recovery of 0.2 ends the run within that frame. The check stands
  before the collisions of the frame: whatever event ends a run is a frame of a playing game
  that already began with a meter of at most 0, so a crash penalty is seen by the check of
  a later frame, never by that of its own. Nothing else sets \<open>gameOver\<close> or shows the
  game-over screen.
\<close>

theorem ended_by_meter_check_only:
  assumes "\<not> gameOver s" and "gameState s \<noteq> Gameover"
  shows "(is_frame e \<and> gameState s = Playing \<and> policeDistance s + 0.2 \<le> 0
            \<longrightarrow> gameOver (step e s) \<and> gameState (step e s) = Gameover) \<and>
         (gameOver (step e s) \<or> gameState (step e s) = Gameover
            \<longrightarrow> is_frame e \<and> gameState s = Playing \<and> policeDistance s \<le> 0)"
proof -
  have "(policeDistance s + 0.2 \<le> 0) = (policeDistance s \<le> - 0.2)"
    by auto
  then show ?thesis
    using ended_step [OF assms, of e] by auto
qed

theorem ended_by_meter_check_only_witness:
  "\<not> gameOver (straight_run 383) \<and> gameState (straight_run 383) \<noteq> Gameover \<and>
   is_frame (Frame (1 / 2) 0) \<and> policeDistance (straight_run 383) + 0.2 \<le> 0 \<and>
   gameOver (step (Frame (1 / 2) 0) (straight_run 383)) \<and>
   gameState (step (Frame (1 / 2) 0) (straight_run 383)) = Gameover"
  using ended_by_meter_check_only [of "straight_run 383" "Frame (1 / 2) 0"]
  by (simp add: straight_run_383)

subsection \<open>C3: a barrier under an airborne player\<close>

text \<open>
  C3, as stated, fails. The branch "jumped over barrier" of the collision loop is empty: an
  unresolved barrier in the player's lane and in the near band stays unresolved while the
  player is higher than 50 above the ground.
\<close>

theorem barrier_jump_counterexample:
  "o_type (near_obstacle Barrier) = Barrier \<and> \<not> passed (near_obstacle Barrier) \<and>
   50 < o_z (near_obstacle Barrier) \<and> o_z (near_obstacle Barrier) < 250 \<and>
   o_lane (near_obstacle Barrier) = p_lane (player (mid_run airborne_player [near_obstacle Barrier] [])) \<and>
   p_y (player (mid_run airborne_player [near_obstacle Barrier] [])) < -50 \<and>
   \<not> passed (snd (collideObstacle (mid_run airborne_player [near_obstacle Barrier] [])
                   (near_obstacle Barrier))) \<and>
   map passed (obstacles (collisionDetection (mid_run airborne_player [near_obstacle Barrier] [])))
     = [False]"
  by (simp add: example_defs collideObstacle_def collisionDetection_def)

text \<open>
  C3, amended: for an unresolved barrier in the player's lane and inside the near band,
  with the player higher than 50 above the ground, the body of the collision loop changes
  neither the state nor the obstacle: no penalty, and \<open>passed\<close> stays false, so the barrier
  is tested again in the next frame. An unresolved obstacle in the player's lane and inside
  the band that is not such a barrier is crashed into: \<open>passed\<close> is set, the meter loses 40
  and the stumble counter is set to 20. An obstacle whose flag is set is never touched
  again, so the flag goes from false to true once, and only together with the penalty.
  Over the pool, the collision loop of a frame sets the flag of exactly the obstacles that
  are crashed into, leaves every other obstacle as it is, and takes 40 for each crash.
\<close>

theorem barrier_jump_unresolved:
  "(o_type ob = Barrier \<and> \<not> passed ob \<and> 50 < o_z ob \<and> o_z ob < 250 \<and>
      o_lane ob = p_lane (player s) \<and> p_y (player s) < -50
      \<longrightarrow> collideObstacle s ob = (s, ob)) \<and>
   (\<not> passed ob \<and> o_z ob < 250 \<and> o_z ob > 50 \<and> o_lane ob = p_lane (player s) \<and>
      \<not> (p_y (player s) < -50 \<and> o_type ob = Barrier)
      \<longrightarrow> collideObstacle s ob =
            (s\<lparr> policeDistance := policeDistance s - 40,
                player := (player s)\<lparr>stumbleCooldown := 20\<rparr> \<rparr>, ob\<lparr>passed := True\<rparr>)) \<and>
   (passed ob \<longrightarrow> collideObstacle s ob = (s, ob)) \<and>
   (\<not> passed ob \<and> passed (snd (collideObstacle s ob))
      \<longrightarrow> policeDistance (fst (collideObstacle s ob)) = policeDistance s - 40) \<and>
   obstacles (collisionDetection s) =
     map (\<lambda>ob. if \<not> passed ob \<and> o_z ob < 250 \<and> o_z ob > 50 \<and> o_lane ob = p_lane (player s) \<and>
                  \<not> (p_y (player s) < -50 \<and> o_type ob = Barrier)
               then ob\<lparr>passed := True\<rparr> else ob) (obstacles s) \<and>
   policeDistance (collisionDetection s) =
     policeDistance s - 40 * real (length (filter
       (\<lambda>ob. \<not> passed ob \<and> o_z ob < 250 \<and> o_z ob > 50 \<and> o_lane ob = p_lane (player s) \<and>
             \<not> (p_y (player s) < -50 \<and> o_type ob = Barrier)) (obstacles s)))"
proof -
  have c: "crashes (player s) =
      (\<lambda>ob. \<not> passed ob \<and> o_z ob < 250 \<and> o_z ob > 50 \<and> o_lane ob = p_lane (player s) \<and>
             \<not> (p_y (player s) < -50 \<and> o_type ob = Barrier))"
    by (simp add: crashes_def fun_eq_iff)
  have "obstacles (collisionDetection s) =
      map (\<lambda>ob. if crashes (player s) ob then ob\<lparr>passed := True\<rparr> else ob) (obstacles s)"
    by (simp add: collisionDetection_eq)
  moreover have "policeDistance (collisionDetection s) =
      policeDistance s - 40 * real (length (filter (crashes (player s)) (obstacles s)))"
    by (rule policeDistance_collisionDetection)
  ultimately have pool: "obstacles (collisionDetection s) =
     map (\<lambda>ob. if \<not> passed ob \<and> o_z ob < 250 \<and> o_z ob > 50 \<and> o_lane ob = p_lane (player s) \<and>
                  \<not> (p_y (player s) < -50 \<and> o_type ob = Barrier)
               then ob\<lparr>passed := True\<rparr> else ob) (obstacles s) \<and>
   policeDistance (collisionDetection s) =
     policeDistance s - 40 * real (length (filter
       (\<lambda>ob. \<not> passed ob \<and> o_z ob < 250 \<and> o_z ob > 50 \<and> o_lane ob = p_lane (player s) \<and>
             \<not> (p_y (player s) < -50 \<and> o_type ob = Barrier)) (obstacles s)))"
    by (simp only: c)
  have body: "(o_type ob = Barrier \<and> \<not> passed ob \<and> 50 < o_z ob \<and> o_z ob < 250 \<and>
      o_lane ob = p_lane (player s) \<and> p_y (player s) < -50
      \<longrightarrow> collideObstacle s ob = (s, ob)) \<and>
   (\<not> passed ob \<and> o_z ob < 250 \<and> o_z ob > 50 \<and> o_lane ob = p_lane (player s) \<and>
      \<not> (p_y (player s) < -50 \<and> o_type ob = Barrier)
      \<longrightarrow> collideObstacle s ob =
            (s\<lparr> policeDistance := policeDistance s - 40,
                player := (player s)\<lparr>stumbleCooldown := 20\<rparr> \<rparr>, ob\<lparr>passed := True\<rparr>)) \<and>
   (passed ob \<longrightarrow> collideObstacle s ob = (s, ob)) \<and>
   (\<not> passed ob \<and> passed (snd (collideObstacle s ob))
      \<longrightarrow> policeDistance (fst (collideObstacle s ob)) = policeDistance s - 40)"
    by (simp add: collideObstacle_def)
  from body pool show ?thesis
    by (simp only: simp_thms)
qed

theorem barrier_jump_unresolved_witness:
  "collideObstacle (mid_run airborne_player [near_obstacle Barrier] []) (near_obstacle Barrier)
     = (mid_run airborne_player [near_obstacle Barrier] [], near_obstacle Barrier) \<and>
   collideObstacle (mid_run grounded_player [] []) ((near_obstacle Barrier)\<lparr>passed := True\<rparr>)
     = (mid_run grounded_player [] [], (near_obstacle Barrier)\<lparr>passed := True\<rparr>) \<and>
   passed (snd (collideObstacle (mid_run grounded_player [] []) (near_obstacle Barrier))) \<and>
   policeDistance (fst (collideObstacle (mid_run grounded_player [] []) (near_obstacle Barrier)))
     = 60 \<and>
   map passed (obstacles (collisionDetection (mid_run airborne_player
       [(near_obstacle Barrier)\<lparr>o_z := 400\<rparr>, near_obstacle Barrier, near_obstacle Train] [])))
     = [False, False, True] \<and>
   policeDistance (collisionDetection (mid_run airborne_player
       [(near_obstacle Barrier)\<lparr>o_z := 400\<rparr>, near_obstacle Barrier, near_obstacle Train] []))
     = 60 \<and>
   map passed (obstacles (collisionDetection (mid_run grounded_player
       [(near_obstacle Barrier)\<lparr>o_z := 400\<rparr>, near_obstacle Barrier, near_obstacle Train] [])))
     = [False, True, True] \<and>
   policeDistance (collisionDetection (mid_run grounded_player
       [(near_obstacle Barrier)\<lparr>o_z := 400\<rparr>, near_obstacle Barrier, near_obstacle Train] []))
     = 20"
  using barrier_jump_unresolved [of "near_obstacle Barrier" "mid_run airborne_player [near_obstacle Barrier] []"]
    barrier_jump_unresolved [of "(near_obstacle Barrier)\<lparr>passed := True\<rparr>" "mid_run grounded_player [] []"]
    barrier_jump_unresolved [of "near_obstacle Barrier" "mid_run grounded_player [] []"]
    barrier_jump_unresolved [of "near_obstacle Barrier" "mid_run airborne_player
       [(near_obstacle Barrier)\<lparr>o_z := 400\<rparr>, near_obstacle Barrier, near_obstacle Train] []"]
    barrier_jump_unresolved [of "near_obstacle Barrier" "mid_run grounded_player
       [(near_obstacle Barrier)\<lparr>o_z := 400\<rparr>, near_obstacle Barrier, near_obstacle Train] []"]
  by (simp add: example_defs)

subsection \<open>C4: collecting coins\<close>




subsection \<open>C5: the order of the physics step\<close>

text \<open>
  C5, as stated, fails. In the frame after a jump key the code moves the player by the old
  velocity, to -15, where the order of the claim gives -14.4.
\<close>

theorem physics_order_counterexample:
  "isJumping jump_start \<and> p_y (physics jump_start) = -15 \<and>
   p_y (physics_as_specified jump_start) = -72 / 5 \<and>
   physics jump_start \<noteq> physics_as_specified jump_start"
  by (simp add: jump_start_def physics_def physics_as_specified_def GRAVITY_def Let_def)

text \<open>
  C5, amended: for an airborne player the physics step first adds the velocity to the
  position and then the gravity to the velocity, so the position uses the velocity of before
  the step; when the new position is at or below the ground (\<open>\<ge> 0\<close>) it is set to 0 and
  \<open>isJumping\<close> is cleared; a player on the ground is not changed. Position, velocity and
  flag after a playing frame are those of this step.
\<close>

theorem physics_position_then_velocity:
  "(isJumping p \<and> p_y p + p_vy p < 0
      \<longrightarrow> physics p = p\<lparr>p_y := p_y p + p_vy p, p_vy := p_vy p + GRAVITY\<rparr>) \<and>
   (isJumping p \<and> p_y p + p_vy p \<ge> 0
      \<longrightarrow> physics p = p\<lparr>p_y := 0, p_vy := p_vy p + GRAVITY, isJumping := False\<rparr>) \<and>
   (\<not> isJumping p \<longrightarrow> physics p = p) \<and>
   (gameState s = Playing \<and> \<not> gameOver s
      \<longrightarrow> p_y (player (loop r1 r2 s)) = p_y (physics (player s)) \<and>
          p_vy (player (loop r1 r2 s)) = p_vy (physics (player s)) \<and>
          isJumping (player (loop r1 r2 s)) = isJumping (physics (player s)))"
  by (simp add: loop_def update_player) (simp add: physics_def Let_def)

theorem physics_position_then_velocity_witness:
  "physics jump_start = jump_start\<lparr>p_y := -15, p_vy := -72 / 5\<rparr> \<and>
   physics (jump_start\<lparr>p_y := -3, p_vy := 14\<rparr>)
     = jump_start\<lparr>p_y := 0, p_vy := 73 / 5, isJumping := False\<rparr> \<and>
   physics grounded_player = grounded_player \<and>
   p_y (player (loop 0 0 (mid_run jump_start [] []))) = -15"
  using physics_position_then_velocity [of jump_start "mid_run jump_start [] []" 0 0]
    physics_position_then_velocity [of "jump_start\<lparr>p_y := -3, p_vy := 14\<rparr>" "mid_run jump_start [] []" 0 0]
    physics_position_then_velocity [of grounded_player "mid_run jump_start [] []" 0 0]
  by (simp add: example_defs GRAVITY_def)

subsection \<open>C6: trains\<close>

text \<open>
  C6: an unresolved train in the player's lane whose depth is inside the near band is
  marked \<open>passed\<close> and costs the penalty of 40 (and sets the stumble counter), whatever the
  height and the jump flag of the player; in the collision loop of a frame such a train of
  the pool comes out marked, and the meter drops by at least 40.
\<close>

theorem train_always_crashes:
  assumes "o_type ob = Train" and "\<not> passed ob" and "50 < o_z ob" and "o_z ob < 250"
    and "o_lane ob = p_lane (player s)"
  shows "collideObstacle s ob =
           (s\<lparr> policeDistance := policeDistance s - 40,
               player := (player s)\<lparr>stumbleCooldown := 20\<rparr> \<rparr>, ob\<lparr>passed := True\<rparr>) \<and>
         (ob \<in> set (obstacles s) \<longrightarrow>
            ob\<lparr>passed := True\<rparr> \<in> set (obstacles (collisionDetection s)) \<and>
            policeDistance (collisionDetection s) \<le> policeDistance s - 40)"
proof -
  from assms have c: "crashes (player s) ob"
    by (simp add: crashes_def)
  then have first: "collideObstacle s ob =
           (s\<lparr> policeDistance := policeDistance s - 40,
               player := (player s)\<lparr>stumbleCooldown := 20\<rparr> \<rparr>, ob\<lparr>passed := True\<rparr>)"
    by (simp add: collideObstacle_eq)
  have second: "ob\<lparr>passed := True\<rparr> \<in> set (obstacles (collisionDetection s)) \<and>
            policeDistance (collisionDetection s) \<le> policeDistance s - 40"
    if mem: "ob \<in> set (obstacles s)"
  proof -
    let ?n = "length (filter (crashes (player s)) (obstacles s))"
    from mem c have "ob \<in> set (filter (crashes (player s)) (obstacles s))"
      by simp
    then have "0 < ?n"
      by (rule length_pos_if_in_set)
    then have n: "1 \<le> real ?n" "?n \<noteq> 0"
      by linarith+
    have "policeDistance (collisionDetection s) = policeDistance s - 40 * real ?n"
      using n(2) by (simp add: collisionDetection_eq penalised_def)
    with n(1) have pd: "policeDistance (collisionDetection s) \<le> policeDistance s - 40"
      by simp
    from mem c have "ob\<lparr>passed := True\<rparr> \<in> set (obstacles (collisionDetection s))"
      by (force simp: collisionDetection_eq penalised_def)
    with pd show ?thesis by simp
  qed
  from first second show ?thesis by blast
qed

theorem train_always_crashes_witness:
  "passed (snd (collideObstacle (mid_run airborne_player [near_obstacle Train] []) (near_obstacle Train))) \<and>
   policeDistance (fst (collideObstacle (mid_run airborne_player [near_obstacle Train] [])
      (near_obstacle Train))) = 60 \<and>
   policeDistance (collisionDetection (mid_run airborne_player [near_obstacle Train] [])) \<le> 60"
  using train_always_crashes [of "near_obstacle Train" "mid_run airborne_player [near_obstacle Train] []"]
  by (simp add: example_defs)

subsection \<open>C7: spawning\<close>

text \<open>
  C7: when the distance run since the last spawn exceeds 800, the spawn adds exactly one
  obstacle, at depth 2000 and unresolved, in a lane of \<open>{0, 1, 2}\<close>, and three active coins
  at the depths 2000, 2150 and 2300 in the lane \<open>(lane + 1) mod LANE_COUNT\<close>, which is not
  the obstacle's lane, and it sets \<open>lastSpawnZ\<close> to the distance; otherwise it does
  nothing. The remainder the code computes never gives back the lane it started from.
\<close>

theorem spawn_event:
  "(distance s - lastSpawnZ s > 800 \<and> 0 \<le> r1 \<and> r1 < 1 \<longrightarrow>
      obstacles (spawning r1 r2 s) = obstacles s @
        [\<lparr> o_lane = \<lfloor>r1 * 3\<rfloor>, o_z = 2000,
           o_type = (if r2 > 0.7 then Train else Barrier), passed = False \<rparr>] \<and>
      items (spawning r1 r2 s) = items s @
        [\<lparr> c_lane = (\<lfloor>r1 * 3\<rfloor> + 1) mod LANE_COUNT, c_z = 2000, active = True, angle = 0 \<rparr>,
         \<lparr> c_lane = (\<lfloor>r1 * 3\<rfloor> + 1) mod LANE_COUNT, c_z = 2000 + 150, active = True, angle = 0 \<rparr>,
         \<lparr> c_lane = (\<lfloor>r1 * 3\<rfloor> + 1) mod LANE_COUNT, c_z = 2000 + 2 * 150, active = True, angle = 0 \<rparr>] \<and>
      \<lfloor>r1 * 3\<rfloor> \<in> {0, 1, 2} \<and>
      (\<lfloor>r1 * 3\<rfloor> + 1) mod LANE_COUNT \<noteq> \<lfloor>r1 * 3\<rfloor> \<and>
      lastSpawnZ (spawning r1 r2 s) = distance s) \<and>
   (\<not> distance s - lastSpawnZ s > 800 \<longrightarrow> spawning r1 r2 s = s) \<and>
   js_rem (l + 1) 3 \<noteq> l"
proof -
  have "\<lfloor>r1 * 3\<rfloor> \<in> {0, 1, 2} \<and> js_rem (\<lfloor>r1 * 3\<rfloor> + 1) 3 = (\<lfloor>r1 * 3\<rfloor> + 1) mod 3 \<and>
        (\<lfloor>r1 * 3\<rfloor> + 1) mod 3 \<noteq> \<lfloor>r1 * 3\<rfloor>"
    if "0 \<le> r1" and "r1 < 1"
  proof -
    from that have l: "0 \<le> \<lfloor>r1 * 3\<rfloor> \<and> \<lfloor>r1 * 3\<rfloor> \<le> 2"
      by (rule floor_random_lane)
    then have "\<lfloor>r1 * 3\<rfloor> = 0 \<or> \<lfloor>r1 * 3\<rfloor> = 1 \<or> \<lfloor>r1 * 3\<rfloor> = 2" by arith
    then have "\<lfloor>r1 * 3\<rfloor> \<in> {0, 1, 2}" by blast
    with l show ?thesis
      using js_rem_lane [of "\<lfloor>r1 * 3\<rfloor>"] by simp
  qed
  then show ?thesis
    by (simp add: spawning_def Let_def LANE_COUNT_def js_rem_differs)
qed

theorem spawn_event_witness:
  "obstacles (spawning (9 / 10) (8 / 10) ((mid_run grounded_player [] [])\<lparr>lastSpawnZ := 1600\<rparr>)) =
     [\<lparr> o_lane = 2, o_z = 2000, o_type = Train, passed = False \<rparr>] \<and>
   items (spawning (9 / 10) (8 / 10) ((mid_run grounded_player [] [])\<lparr>lastSpawnZ := 1600\<rparr>)) =
     [\<lparr> c_lane = 0, c_z = 2000, active = True, angle = 0 \<rparr>,
      \<lparr> c_lane = 0, c_z = 2150, active = True, angle = 0 \<rparr>,
      \<lparr> c_lane = 0, c_z = 2300, active = True, angle = 0 \<rparr>] \<and>
   lastSpawnZ (spawning (9 / 10) (8 / 10) ((mid_run grounded_player [] [])\<lparr>lastSpawnZ := 1600\<rparr>)) = 2500 \<and>
   spawning (9 / 10) (8 / 10) (mid_run grounded_player [] []) = mid_run grounded_player [] []"
  using spawn_event [of "(mid_run grounded_player [] [])\<lparr>lastSpawnZ := 1600\<rparr>" "9 / 10" "8 / 10"]
    spawn_event [of "mid_run grounded_player [] []" "9 / 10" "8 / 10"]
  by (simp add: example_defs LANE_COUNT_def)

subsection \<open>C8: after the end\<close>

text \<open>
  C8: in a reachable state on the game-over screen, any sequence of frames, key presses and
  clicks on the start button leaves the whole state as it is (score, coins, meter, distance,
  speed, player and both pools included); only "Play Again" leads on.
\<close>

theorem ended_is_frozen:
  assumes "reachable s" and "gameState s = Gameover" and "RestartClick \<notin> set es"
  shows "run es s = s"
proof -
  from assms(1,2) have "gameOver s"
    by (simp add: phase_sync_reachable)
  then show ?thesis
    using assms(2,3) by (rule frozen_run)
qed

theorem ended_is_frozen_witness:
  "reachable (straight_run 384) \<and> gameState (straight_run 384) = Gameover \<and>
   run [Frame (1 / 2) 0, KeyDown ''ArrowLeft'', KeyDown '' '', StartClick, Frame 0 (9 / 10)]
     (straight_run 384) = straight_run 384"
  using ended_is_frozen [of "straight_run 384"
      "[Frame (1 / 2) 0, KeyDown ''ArrowLeft'', KeyDown '' '', StartClick, Frame 0 (9 / 10)]"]
  by (simp add: reachable_straight_run straight_run_384)

subsection \<open>C9: lanes\<close>

text \<open>
  C9: in every reachable state the lane of the player, of every obstacle and of every coin
  lies between 0 and \<open>LANE_COUNT - 1\<close>. During play a left key moves the player one lane
  down and a right key one lane up, and each is ignored in the boundary lane on its side.
\<close>

theorem lanes_in_bounds:
  "(reachable s \<longrightarrow>
      0 \<le> p_lane (player s) \<and> p_lane (player s) \<le> LANE_COUNT - 1 \<and>
      (\<forall>ob \<in> set (obstacles s). 0 \<le> o_lane ob \<and> o_lane ob \<le> LANE_COUNT - 1) \<and>
      (\<forall>c \<in> set (items s). 0 \<le> c_lane c \<and> c_lane c \<le> LANE_COUNT - 1)) \<and>
   (gameState s = Playing \<and> (k = ''ArrowLeft'' \<or> k = ''a'') \<longrightarrow>
      p_lane (player (handleKeyDown k s))
        = (if p_lane (player s) > 0 then p_lane (player s) - 1 else p_lane (player s))) \<and>
   (gameState s = Playing \<and> (k = ''ArrowRight'' \<or> k = ''d'') \<longrightarrow>
      p_lane (player (handleKeyDown k s))
        = (if p_lane (player s) < LANE_COUNT - 1 then p_lane (player s) + 1
           else p_lane (player s)))"
proof -
  have "lanes_ok s" if "reachable s"
    using that
  proof (induction rule: reachable.induct)
    case reachable_initial
    show ?case by (simp add: lanes_ok_def initial_def LANE_COUNT_def)
  next
    case (reachable_step s e)
    then show ?case by (simp add: lanes_ok_step)
  qed
  then show ?thesis
    by (auto simp: lanes_ok_def handleKeyDown_def)
qed

theorem lanes_in_bounds_witness:
  "reachable (run [StartClick, KeyDown ''a'', KeyDown ''ArrowLeft'', KeyDown ''a''] initial) \<and>
   p_lane (player (run [StartClick, KeyDown ''a'', KeyDown ''ArrowLeft'', KeyDown ''a''] initial)) = 0 \<and>
   reachable (straight_run 382) \<and>
   p_lane (player (straight_run 382)) = 1 \<and>
   map o_lane (obstacles (straight_run 382)) = [1, 1, 1] \<and>
   map c_lane (items (straight_run 382)) = [2, 2, 2, 2, 2, 2, 2, 2, 2]"
  using lanes_in_bounds [of "run [StartClick, KeyDown ''a'', KeyDown ''ArrowLeft'', KeyDown ''a''] initial"]
    lanes_in_bounds [of "straight_run 382"]
    reachable_run [OF reachable_initial,
      of "[StartClick, KeyDown ''a'', KeyDown ''ArrowLeft'', KeyDown ''a'']"]
    reachable_straight_run [of 382]
  by (simp add: initial_def handleKeyDown_def LANE_COUNT_def straight_run_382)

subsection \<open>C10: the stumble counter\<close>

text \<open>
  C10: no event other than "Play Again" changes \<open>stumbleCooldown\<close> except to set it to
  20; once it is 20 it stays 20 through any sequence of frames, key presses and start
  clicks; \<open>resetGame\<close> puts it back to 0.
\<close>

theorem stumble_never_cleared:
  "(e \<noteq> RestartClick \<longrightarrow>
      stumbleCooldown (player (step e s)) = stumbleCooldown (player s) \<or>
      stumbleCooldown (player (step e s)) = 20) \<and>
   (stumbleCooldown (player s) = 20 \<and> RestartClick \<notin> set es
      \<longrightarrow> stumbleCooldown (player (run es s)) = 20) \<and>
   stumbleCooldown (player (resetGame s)) = 0"
  using stumbleCooldown_step [of e s] stumbleCooldown_run [of s es]
  by (simp add: resetGame_def)

theorem stumble_never_cleared_witness:
  "stumbleCooldown (player (straight_run 383)) = 20 \<and>
   stumbleCooldown (player (run [Frame (1 / 2) 0, KeyDown ''d'', Frame 0 0] (straight_run 383))) = 20"
  using stumble_never_cleared [of "Frame 0 0" "straight_run 383" "[Frame (1 / 2) 0, KeyDown ''d'', Frame 0 0]"]
  by (simp add: straight_run_383)

end
